theory Spec2Isabelle
  imports Complex_Main "HOL-Library.Multiset" "HOL-Library.AList"
begin

section \<open>Cells, text and timestamps\<close>

text \<open>
  A Python \<open>str\<close> is a sequence of Unicode code points; the labels of the sheet are
  Chinese words, so a string is a list of code points here.  Column names of the
  canonical table are ASCII and are written as HOL strings.
\<close>

type_synonym pystr = "nat list"

text \<open>
  A point in time (\<open>datetime\<close>, \<open>pandas.Timestamp\<close>) is the number of days since
  1899-12-30 00:00, the epoch of the sheet's day counts, as an exact rational.  The
  library's rounding to nanoseconds is not modelled.
\<close>

type_synonym timestamp = rat

text \<open>
  One cell of the sheet as the reader delivers it: blank (\<open>None\<close>, \<open>NaN\<close>, \<open>NaT\<close>, all
  of which \<open>pd.isna\<close> accepts), a date-time (one that a \<open>Timestamp\<close> can hold), a
  text, a number (\<open>int\<close> or finite \<open>float\<close>), a boolean (in Python an \<open>int\<close> too, but
  one the library tells from a number), or any other object.
\<close>

datatype cell = Missing | Stamp timestamp | Text pystr | Num rat | Bool bool | Other

text \<open>\<open>str.isspace\<close>: the code points that \<open>str.strip()\<close> removes.\<close>

definition is_space :: "nat \<Rightarrow> bool" where
  "is_space c \<longleftrightarrow>
     (9 \<le> c \<and> c \<le> 13) \<or> (28 \<le> c \<and> c \<le> 32) \<or> c = 133 \<or> c = 160 \<or> c = 5760 \<or>
     (8192 \<le> c \<and> c \<le> 8202) \<or> c = 8232 \<or> c = 8233 \<or> c = 8239 \<or> c = 8287 \<or> c = 12288"

definition strip :: "pystr \<Rightarrow> pystr" where
  "strip s = rev (dropWhile is_space (rev (dropWhile is_space s)))"

text \<open>\<open>int(x)\<close> of a number truncates towards zero.\<close>

definition py_int :: "rat \<Rightarrow> int" where
  "py_int x = (if 0 \<le> x then \<lfloor>x\<rfloor> else \<lceil>x\<rceil>)"

datatype dtype = Datetime64 | Numeric | Object

datatype error =
    InvalidDateValue
  | NegativeSerial
  | DateOverflow
  | ReadFailed
  | EmptyFile
  | TooFewColumns nat
  | NoValidDates dtype "cell list"
  | InvalidMetric pystr
  | KeyError string
  | ConversionFailed

section \<open>Date normalisation (data\_loader.py)\<close>

text \<open>
  \<open>convert_excel_date\<close>: the day count is truncated by \<open>int\<close> and added to the base
  date 1899-12-30.  \<open>datetime\<close> ends with the year 9999, day count 2958465; a sum
  beyond it raises \<open>OverflowError\<close>.  A boolean passes the \<open>isinstance\<close> test, and
  \<open>int\<close> makes it 1 or 0.
\<close>

definition datetime_max_days :: int where
  "datetime_max_days = 2958465"

fun convert_excel_date :: "cell \<Rightarrow> error + timestamp" where
  "convert_excel_date (Num x) =
     (if x < 0 then Inl NegativeSerial
      else if datetime_max_days < py_int x then Inl DateOverflow
      else Inr (of_int (py_int x)))"
| "convert_excel_date (Bool b) = Inr (if b then 1 else 0)"
| "convert_excel_date _ = Inl InvalidDateValue"

definition date_labels :: "pystr list" where
  "date_labels =
     [[0x65E5, 0x671F], [100, 97, 116, 101], [68, 97, 116, 101], [68, 65, 84, 69],
      [68, 97, 116, 101], [0x65F6, 0x95F4], [0x65F6, 0x95F4]]"

text \<open>
  \<open>safe_convert_date\<close>, the function applied to every cell of the date column.  Two
  calls belong to the library and are parameters.  The parser of date strings,
  \<open>pd.to_datetime(x)\<close> on a \<open>str\<close>, is \<open>parse\<close>: \<open>None\<close> when it raises or yields
  \<open>NaT\<close>.  The fallback of line 142, \<open>pd.to_datetime(x, origin='1899-12-30', unit='D')\<close>,
  is \<open>from_origin\<close>: an error when it raises; which values it accepts and how far its
  range reaches is the library's matter.  The result \<open>Missing\<close> is \<open>pd.NaT\<close>.  For a
  boolean the test \<open>1 <= x <= 100000\<close> holds exactly when it is \<open>True\<close>.
\<close>

fun safe_convert_date ::
  "(pystr \<Rightarrow> timestamp option) \<Rightarrow> (cell \<Rightarrow> error + timestamp) \<Rightarrow> cell \<Rightarrow> cell" where
  "safe_convert_date parse from_origin Missing = Missing"
| "safe_convert_date parse from_origin (Stamp t) = Stamp t"
| "safe_convert_date parse from_origin (Text s) =
     (if strip s \<in> set date_labels then Missing
      else case parse s of None \<Rightarrow> Missing | Some t \<Rightarrow> Stamp t)"
| "safe_convert_date parse from_origin (Num x) =
     (if 1 \<le> x \<and> x \<le> 100000
      then (case convert_excel_date (Num x) of Inl e \<Rightarrow> Missing | Inr t \<Rightarrow> Stamp t)
      else (case from_origin (Num x) of Inl e \<Rightarrow> Missing | Inr t \<Rightarrow> Stamp t))"
| "safe_convert_date parse from_origin (Bool b) =
     (if b
      then (case convert_excel_date (Bool b) of Inl e \<Rightarrow> Missing | Inr t \<Rightarrow> Stamp t)
      else (case from_origin (Bool b) of Inl e \<Rightarrow> Missing | Inr t \<Rightarrow> Stamp t))"
| "safe_convert_date parse from_origin Other = Missing"

section \<open>Header resolution (data\_loader.py, lines 154--201)\<close>

definition lbl_exposure :: pystr where "lbl_exposure = [0x66DD, 0x5149]"
definition lbl_greet :: pystr where "lbl_greet = [0x65B0, 0x62DB, 0x547C]"
definition lbl_kill :: pystr where "lbl_kill = [0x8865, 0x5200, 0x6B21, 0x6570]"
definition lbl_exchange :: pystr where "lbl_exchange = [0x4EA4, 0x6362, 0x5FAE, 0x4FE1]"
definition lbl_add :: pystr where "lbl_add = [0x6DFB, 0x52A0, 0x5FAE, 0x4FE1]"

text \<open>
  \<open>header_val\<close>: the stripped text of a label cell, the empty text for a blank one.
  \<open>str(x)\<close> of a number, a date-time or another object is ASCII text that is not
  modelled (\<open>None\<close>): it equals none of the five labels.
\<close>

fun header_val :: "cell \<Rightarrow> pystr option" where
  "header_val (Text s) = Some (strip s)"
| "header_val Missing = Some []"
| "header_val _ = None"

text \<open>The \<open>if\<close>/\<open>elif\<close> chain over the label text, for the block of \<open>user\<close>.\<close>

definition field_of_label :: "string \<Rightarrow> pystr option \<Rightarrow> string option" where
  "field_of_label user hv =
     (case hv of
        None \<Rightarrow> None
      | Some v \<Rightarrow>
          if v = lbl_exposure then Some (user @ ''_exposure'')
          else if v = lbl_greet then Some (user @ ''_greet'')
          else if v = lbl_kill then Some (user @ ''_kill'')
          else if v = lbl_exchange then Some (user @ ''_exchange'')
          else if v = lbl_add then Some (user @ ''_add'')
          else None)"

text \<open>
  The loop \<open>for col_idx in range(lo, min(hi, len(header_row)))\<close> that fills the
  dictionary \<open>user1_cols\<close> (or \<open>user2_cols\<close>); a dictionary keeps insertion order and
  is an association list updated with \<open>AList.update\<close>.
\<close>

definition scan_block :: "string \<Rightarrow> nat \<Rightarrow> nat \<Rightarrow> cell list \<Rightarrow> (nat \<times> string) list" where
  "scan_block user lo hi header_row =
     fold (\<lambda>col_idx cols.
             case field_of_label user (header_val (header_row ! col_idx)) of
               None \<Rightarrow> cols
             | Some name \<Rightarrow> AList.update col_idx name cols)
          [lo ..< min hi (length header_row)] []"

text \<open>The merge loops: \<open>if col_idx < len(headers): column_mapping[headers[col_idx]] = col_name\<close>.\<close>

definition merge_cols :: "nat \<Rightarrow> (nat \<times> string) list \<Rightarrow> (nat \<times> string) list \<Rightarrow> (nat \<times> string) list" where
  "merge_cols n_headers user_cols mapping =
     fold (\<lambda>(col_idx, col_name) m.
             if col_idx < n_headers then AList.update col_idx col_name m else m)
          user_cols mapping"

text \<open>
  \<open>column_mapping\<close>: the code keys it by the name of the raw column, \<open>headers[i]\<close>; the
  reader makes these names distinct, so the key is the column index \<open>i\<close> here.  The
  dictionary starts with the two positional entries of lines 154--157.
\<close>

definition column_mapping :: "nat \<Rightarrow> cell list \<Rightarrow> (nat \<times> string) list" where
  "column_mapping n_headers header_row =
     (let user1_cols = scan_block ''user1'' 1 6 header_row;
          user2_cols = scan_block ''user2'' 8 13 header_row
      in merge_cols n_headers user2_cols
           (merge_cols n_headers user1_cols
              [(1, ''user1_exposure''), (2, ''user1_greet'')]))"

section \<open>Tables\<close>

text \<open>
  A \<open>DataFrame\<close> with a \<open>date\<close> column: the type of that column, the names of the
  other columns in order, and the rows, each with its date cell and one value per
  column.  The values are of type \<open>'v\<close>: raw cells for the table the loader builds,
  floating-point numbers for the arithmetic of the query layer.
\<close>

record 'v frame =
  date_dtype :: dtype
  columns :: "string list"
  rows :: "(cell \<times> 'v list) list"

fun index_of :: "'a \<Rightarrow> 'a list \<Rightarrow> nat option" where
  "index_of x [] = None"
| "index_of x (y # ys) = (if x = y then Some 0 else map_option Suc (index_of x ys))"

text \<open>\<open>df[c]\<close>: the values of a column, \<open>KeyError\<close> when there is no such column.\<close>

definition get_column :: "'v frame \<Rightarrow> string \<Rightarrow> error + 'v list" where
  "get_column df c =
     (case index_of c (columns df) of
        None \<Rightarrow> Inl (KeyError c)
      | Some i \<Rightarrow> Inr (map (\<lambda>r. snd r ! i) (rows df)))"

text \<open>\<open>df[c] = vs\<close>: overwrite the column in place when it exists, else append it.\<close>

definition set_column :: "string \<Rightarrow> 'v list \<Rightarrow> 'v frame \<Rightarrow> 'v frame" where
  "set_column c vs df =
     (case index_of c (columns df) of
        None \<Rightarrow> df\<lparr>columns := columns df @ [c],
                   rows := map (\<lambda>(r, v). (fst r, snd r @ [v])) (zip (rows df) vs)\<rparr>
      | Some i \<Rightarrow> df\<lparr>rows := map (\<lambda>(r, v). (fst r, (snd r)[i := v])) (zip (rows df) vs)\<rparr>)"

text \<open>Boolean indexing \<open>xs[mask]\<close>.\<close>

definition select_rows :: "bool list \<Rightarrow> 'a list \<Rightarrow> 'a list" where
  "select_rows msk xs = map snd (filter fst (zip msk xs))"

fun is_stamp :: "cell \<Rightarrow> bool" where
  "is_stamp (Stamp t) = True"
| "is_stamp _ = False"

fun key_of :: "cell \<Rightarrow> timestamp" where
  "key_of (Stamp t) = t"
| "key_of _ = 0"

section \<open>Loading a sheet (data\_loader.py, \<open>load_excel_data\<close>)\<close>

text \<open>
  The sheet is the grid of cells the reader returns, row by row.  \<open>pd.read_excel\<close>
  takes row 0 (the entity names) as the column names \<open>headers\<close>, so the rows of \<open>df\<close>
  are rows 1, 2, ... of the sheet: the label row is the first of them, and
  \<open>df_header.iloc[1]\<close> is that row.  The two entity names, returned beside the table,
  take no part in what follows and are left out.
\<close>

type_synonym sheet = "cell list list"

definition cell_at :: "cell list \<Rightarrow> nat \<Rightarrow> cell" where
  "cell_at r i = (if i < length r then r ! i else Missing)"

text \<open>
  The type the reader infers for a column: date-time when every cell is a date-time
  or blank (and one is a date-time), numeric when every cell is a number or blank,
  \<open>object\<close> otherwise.
\<close>

fun is_blank_or_num :: "cell \<Rightarrow> bool" where
  "is_blank_or_num Missing = True"
| "is_blank_or_num (Num x) = True"
| "is_blank_or_num _ = False"

definition col_dtype :: "cell list \<Rightarrow> dtype" where
  "col_dtype cs =
     (if list_all (\<lambda>c. c = Missing \<or> is_stamp c) cs \<and> list_ex is_stamp cs then Datetime64
      else if list_all is_blank_or_num cs then Numeric
      else Object)"

text \<open>Lines 107--148: a date-time column is used as it is, any other is converted cell by cell.\<close>

definition convert_dates ::
  "(pystr \<Rightarrow> timestamp option) \<Rightarrow> (cell \<Rightarrow> error + timestamp) \<Rightarrow> cell list \<Rightarrow> cell list" where
  "convert_dates parse from_origin date_col =
     (if col_dtype date_col = Datetime64 then date_col
      else map (safe_convert_date parse from_origin) date_col)"

text \<open>
  Lines 204--208: \<open>new_df\<close> starts with the date column; every entry of the mapping
  whose raw column exists copies that column, cell by cell, under its canonical name.
\<close>

definition select_columns ::
  "nat \<Rightarrow> (nat \<times> string) list \<Rightarrow> cell list list \<Rightarrow> cell list \<Rightarrow> cell frame" where
  "select_columns n_headers mapping body dates =
     fold (\<lambda>(old_col, new_col) new_df.
             if old_col < n_headers
             then set_column new_col (map (\<lambda>r. cell_at r old_col) body) new_df
             else new_df)
          mapping
          \<lparr>date_dtype = Datetime64, columns = [], rows = map (\<lambda>d. (d, [])) dates\<rparr>"

text \<open>
  Lines 60--223: the checks, the date column, the mapping, the selection, \<open>dropna\<close> on
  the date and the error when no row is left.  The flag \<open>has_kill_metric\<close> of line 99
  is computed and never read, so it has no counterpart here.  The file is taken to
  exist; an empty grid stands for a sheet the reader finds no row in.
\<close>

definition build_table ::
  "(pystr \<Rightarrow> timestamp option) \<Rightarrow> (cell \<Rightarrow> error + timestamp) \<Rightarrow> sheet
     \<Rightarrow> error + cell frame" where
  "build_table parse from_origin sh =
     (case sh of
        [] \<Rightarrow> Inl ReadFailed
      | headers # body \<Rightarrow>
          if body = [] \<or> headers = [] then Inl EmptyFile
          else if length headers < 12 then Inl (TooFewColumns (length headers))
          else
            let date_col = map (\<lambda>r. cell_at r 0) body;
                dates = convert_dates parse from_origin date_col;
                mapping = column_mapping (length headers) (hd body);
                new_df = select_columns (length headers) mapping body dates;
                kept = filter (\<lambda>r. fst r \<noteq> Missing) (rows new_df)
            in if kept = [] then Inl (NoValidDates (col_dtype date_col) (take 5 date_col))
               else Inr (new_df\<lparr>rows := kept\<rparr>))"

text \<open>
  Line 226, \<open>sort_values('date')\<close>: the library computes an index permutation with
  \<open>argsort\<close> over the non-null keys (nulls go last) and takes the rows in that order.
  The call names no \<open>kind\<close>, so the algorithm is the library's default \<open>quicksort\<close>;
  it is the parameter \<open>argsort\<close>, and \<open>argsort_ok\<close> is what the library promises of
  it: a permutation of the positions that puts the keys in ascending order.
\<close>

definition sort_values ::
  "(timestamp list \<Rightarrow> nat list) \<Rightarrow> (cell \<times> 'v list) list \<Rightarrow> (cell \<times> 'v list) list" where
  "sort_values argsort rs =
     (let non_nans = filter (\<lambda>r. is_stamp (fst r)) rs;
          nans = filter (\<lambda>r. \<not> is_stamp (fst r)) rs;
          indexer = argsort (map (\<lambda>r. key_of (fst r)) non_nans)
      in map (\<lambda>i. non_nans ! i) indexer @ nans)"

definition argsort_ok :: "timestamp list \<Rightarrow> nat list \<Rightarrow> bool" where
  "argsort_ok keys indexer \<longleftrightarrow>
     mset indexer = mset [0 ..< length keys] \<and> sorted (map (\<lambda>i. keys ! i) indexer)"

definition load_excel_data ::
  "(timestamp list \<Rightarrow> nat list) \<Rightarrow> (pystr \<Rightarrow> timestamp option)
     \<Rightarrow> (cell \<Rightarrow> error + timestamp) \<Rightarrow> sheet \<Rightarrow> error + cell frame" where
  "load_excel_data argsort parse from_origin sh =
     (case build_table parse from_origin sh of
        Inl e \<Rightarrow> Inl e
      | Inr new_df \<Rightarrow> Inr (new_df\<lparr>rows := sort_values argsort (rows new_df)\<rparr>))"

section \<open>Floating-point values of the query layer\<close>

text \<open>
  A \<open>float64\<close> value: not-a-number (the absent value of a numeric column), the two
  infinities, or a finite number.  Finite numbers are exact rationals: rounding,
  overflow and the sign of zero are not modelled; the special values follow IEEE 754,
  which is what \<open>Series.div\<close>, \<open>*\<close> and the reductions compute with.
\<close>

datatype fval = NaN | PosInf | NegInf | Fin rat

fun fdiv :: "fval \<Rightarrow> fval \<Rightarrow> fval" where
  "fdiv NaN y = NaN"
| "fdiv x NaN = NaN"
| "fdiv (Fin a) (Fin b) =
     (if b \<noteq> 0 then Fin (a / b) else if 0 < a then PosInf else if a < 0 then NegInf else NaN)"
| "fdiv (Fin a) y = Fin 0"
| "fdiv PosInf (Fin b) = (if 0 \<le> b then PosInf else NegInf)"
| "fdiv NegInf (Fin b) = (if 0 \<le> b then NegInf else PosInf)"
| "fdiv x y = NaN"

fun fmul :: "fval \<Rightarrow> fval \<Rightarrow> fval" where
  "fmul NaN y = NaN"
| "fmul x NaN = NaN"
| "fmul (Fin a) (Fin b) = Fin (a * b)"
| "fmul (Fin a) PosInf = (if 0 < a then PosInf else if a < 0 then NegInf else NaN)"
| "fmul (Fin a) NegInf = (if 0 < a then NegInf else if a < 0 then PosInf else NaN)"
| "fmul PosInf (Fin b) = (if 0 < b then PosInf else if b < 0 then NegInf else NaN)"
| "fmul NegInf (Fin b) = (if 0 < b then NegInf else if b < 0 then PosInf else NaN)"
| "fmul PosInf PosInf = PosInf"
| "fmul NegInf NegInf = PosInf"
| "fmul x y = NegInf"

fun fadd :: "fval \<Rightarrow> fval \<Rightarrow> fval" where
  "fadd NaN y = NaN"
| "fadd x NaN = NaN"
| "fadd (Fin a) (Fin b) = Fin (a + b)"
| "fadd (Fin a) y = y"
| "fadd x (Fin b) = x"
| "fadd PosInf PosInf = PosInf"
| "fadd NegInf NegInf = NegInf"
| "fadd x y = NaN"

text \<open>\<open>x < y\<close> on floats: false as soon as one side is not-a-number.\<close>

fun fless :: "fval \<Rightarrow> fval \<Rightarrow> bool" where
  "fless NaN y = False"
| "fless x NaN = False"
| "fless (Fin a) (Fin b) = (a < b)"
| "fless x NegInf = False"
| "fless PosInf y = False"
| "fless x y = True"

definition fmax :: "fval \<Rightarrow> fval \<Rightarrow> fval" where
  "fmax x y = (if fless x y then y else x)"

definition fmin :: "fval \<Rightarrow> fval \<Rightarrow> fval" where
  "fmin x y = (if fless y x then y else x)"

text \<open>
  The reductions of a \<open>Series\<close> with the default \<open>skipna=True\<close>, as the library's
  \<open>nanops\<close> computes them: \<open>sum\<close> puts 0 in the place of every absent value and adds up;
  \<open>mean\<close> divides that sum by the number of values present, and is absent when there
  is none; \<open>max\<close> (\<open>min\<close>) puts \<open>-inf\<close> (\<open>+inf\<close>) in the place of every absent value, takes
  the largest (smallest), and is absent when no value is present.
\<close>

definition count_valid :: "fval list \<Rightarrow> nat" where
  "count_valid vs = length (filter (\<lambda>v. v \<noteq> NaN) vs)"

definition nansum :: "fval list \<Rightarrow> fval" where
  "nansum vs = foldl fadd (Fin 0) (map (\<lambda>v. if v = NaN then Fin 0 else v) vs)"

definition nanmean :: "fval list \<Rightarrow> fval" where
  "nanmean vs =
     (if 0 < count_valid vs then fdiv (nansum vs) (Fin (of_nat (count_valid vs))) else NaN)"

definition nanmax :: "fval list \<Rightarrow> fval" where
  "nanmax vs =
     (case map (\<lambda>v. if v = NaN then NegInf else v) vs of
        [] \<Rightarrow> NaN
      | x # xs \<Rightarrow> if count_valid vs < 1 then NaN else foldl fmax x xs)"

definition nanmin :: "fval list \<Rightarrow> fval" where
  "nanmin vs =
     (case map (\<lambda>v. if v = NaN then PosInf else v) vs of
        [] \<Rightarrow> NaN
      | x # xs \<Rightarrow> if count_valid vs < 1 then NaN else foldl fmin x xs)"

section \<open>The query layer (data\_processor.py)\<close>

text \<open>
  The functions of the query layer receive a reference to the caller's
  \<open>DataFrame\<close>; what they return may be a new object.  The store is the list of the
  frames that exist, a reference is a position in it, a new object is appended.
  Every function returns the store it leaves behind together with its result or the
  exception it raises.  A reference passed in is the position of an existing frame.
\<close>

type_synonym 'v store = "'v frame list"

definition in_range :: "timestamp \<Rightarrow> timestamp \<Rightarrow> cell \<Rightarrow> bool" where
  "in_range start_dt end_dt c =
     (case c of Stamp t \<Rightarrow> start_dt \<le> t \<and> t \<le> end_dt | _ \<Rightarrow> False)"

text \<open>
  \<open>filter_by_date_range\<close>.  The bounds \<open>start_dt\<close> and \<open>end_dt\<close> are the timestamps the
  library parses from the two date strings.  When the date column is not of a
  date-time type, line 27 converts it with the library's \<open>pd.to_datetime\<close> (the
  parameter \<open>to_datetime\<close>) and assigns it to the caller's frame.
\<close>

definition filter_by_date_range ::
  "(cell list \<Rightarrow> error + cell list) \<Rightarrow> 'v store \<Rightarrow> nat \<Rightarrow> timestamp \<Rightarrow> timestamp
     \<Rightarrow> 'v store \<times> (error + nat)" where
  "filter_by_date_range to_datetime \<sigma> df start_dt end_dt =
     (case (if date_dtype (\<sigma> ! df) \<noteq> Datetime64
            then (case to_datetime (map fst (rows (\<sigma> ! df))) of
                    Inl e \<Rightarrow> Inl e
                  | Inr ds \<Rightarrow>
                      Inr (\<sigma>[df := (\<sigma> ! df)\<lparr>date_dtype := Datetime64,
                                   rows := map (\<lambda>(d, r). (d, snd r)) (zip ds (rows (\<sigma> ! df)))\<rparr>]))
            else Inr \<sigma>) of
        Inl e \<Rightarrow> (\<sigma>, Inl e)
      | Inr \<sigma>1 \<Rightarrow>
          let msk = map (\<lambda>r. in_range start_dt end_dt (fst r)) (rows (\<sigma>1 ! df));
              filtered_df = (\<sigma>1 ! df)\<lparr>rows := select_rows msk (rows (\<sigma>1 ! df))\<rparr>
          in (\<sigma>1 @ [filtered_df], Inr (length \<sigma>1)))"

text \<open>
  \<open>calculate_conversion_rates\<close>: \<open>result_df = df.copy()\<close> is a new object; the two
  rate columns are assigned to it.
\<close>

definition conversion_rate :: "fval list \<Rightarrow> fval list \<Rightarrow> fval list" where
  "conversion_rate adds exchanges =
     map (\<lambda>(a, e). fmul (fdiv a e) (Fin 100)) (zip adds exchanges)"

definition calculate_conversion_rates :: "fval store \<Rightarrow> nat \<Rightarrow> fval store \<times> (error + nat)" where
  "calculate_conversion_rates \<sigma> df =
     (let result_df = length \<sigma>;
          \<sigma>1 = \<sigma> @ [\<sigma> ! df]
      in case get_column (\<sigma>1 ! result_df) ''user1_add'' of
           Inl e \<Rightarrow> (\<sigma>1, Inl e)
         | Inr add1 \<Rightarrow>
        (case get_column (\<sigma>1 ! result_df) ''user1_exchange'' of
           Inl e \<Rightarrow> (\<sigma>1, Inl e)
         | Inr exchange1 \<Rightarrow>
        (let \<sigma>2 = \<sigma>1[result_df :=
                      set_column ''user1_conversion_rate'' (conversion_rate add1 exchange1)
                        (\<sigma>1 ! result_df)]
         in case get_column (\<sigma>2 ! result_df) ''user2_add'' of
              Inl e \<Rightarrow> (\<sigma>2, Inl e)
            | Inr add2 \<Rightarrow>
           (case get_column (\<sigma>2 ! result_df) ''user2_exchange'' of
              Inl e \<Rightarrow> (\<sigma>2, Inl e)
            | Inr exchange2 \<Rightarrow>
                (\<sigma>2[result_df :=
                      set_column ''user2_conversion_rate'' (conversion_rate add2 exchange2)
                        (\<sigma>2 ! result_df)],
                 Inr result_df)))))"

text \<open>The dictionary \<open>metric_mapping\<close>, the same in the three functions that follow.\<close>

definition metric_mapping :: "(pystr \<times> string \<times> string) list" where
  "metric_mapping =
     [(lbl_exposure, (''user1_exposure'', ''user2_exposure'')),
      (lbl_greet, (''user1_greet'', ''user2_greet'')),
      (lbl_exchange, (''user1_exchange'', ''user2_exchange'')),
      (lbl_add, (''user1_add'', ''user2_add'')),
      (lbl_kill, (''user1_kill'', ''user2_kill''))]"

definition get_metric_data ::
  "'v store \<Rightarrow> nat \<Rightarrow> pystr \<Rightarrow> 'v store \<times> (error + cell list \<times> 'v list \<times> 'v list)" where
  "get_metric_data \<sigma> df metric =
     (case map_of metric_mapping metric of
        None \<Rightarrow> (\<sigma>, Inl (InvalidMetric metric))
      | Some (user1_col, user2_col) \<Rightarrow>
          let dates = map fst (rows (\<sigma> ! df))
          in case get_column (\<sigma> ! df) user1_col of
               Inl e \<Rightarrow> (\<sigma>, Inl e)
             | Inr user1_values \<Rightarrow>
            (case get_column (\<sigma> ! df) user2_col of
               Inl e \<Rightarrow> (\<sigma>, Inl e)
             | Inr user2_values \<Rightarrow> (\<sigma>, Inr (dates, user1_values, user2_values))))"

record stats =
  st_mean :: fval
  st_max :: fval
  st_min :: fval
  st_sum :: fval

definition series_stats :: "fval list \<Rightarrow> stats" where
  "series_stats vs =
     \<lparr>st_mean = nanmean vs, st_max = nanmax vs, st_min = nanmin vs, st_sum = nansum vs\<rparr>"

definition calculate_statistics ::
  "fval store \<Rightarrow> nat \<Rightarrow> pystr \<Rightarrow> fval store \<times> (error + stats \<times> stats)" where
  "calculate_statistics \<sigma> df metric =
     (case map_of metric_mapping metric of
        None \<Rightarrow> (\<sigma>, Inl (InvalidMetric metric))
      | Some (user1_col, user2_col) \<Rightarrow>
          (case get_column (\<sigma> ! df) user1_col of
             Inl e \<Rightarrow> (\<sigma>, Inl e)
           | Inr user1_values \<Rightarrow>
          (case get_column (\<sigma> ! df) user2_col of
             Inl e \<Rightarrow> (\<sigma>, Inl e)
           | Inr user2_values \<Rightarrow>
               (\<sigma>, Inr (series_stats user1_values, series_stats user2_values)))))"


section \<open>Sample data\<close>

text \<open>A parser of date strings that recognises nothing.\<close>

definition no_parse :: "pystr \<Rightarrow> timestamp option" where
  "no_parse s = None"

text \<open>
  A fallback conversion as the library documents it for numbers: the point \<open>x\<close> days
  from the origin.  What is not a number it refuses.
\<close>

fun days_from_origin :: "cell \<Rightarrow> error + timestamp" where
  "days_from_origin (Num x) = Inr x"
| "days_from_origin c = Inl InvalidDateValue"

text \<open>The label of a header cell is one of the five metric labels.\<close>

definition recognised :: "cell \<Rightarrow> bool" where
  "recognised c \<longleftrightarrow>
     (case header_val c of
        None \<Rightarrow> False
      | Some v \<Rightarrow> v \<in> set [lbl_exposure, lbl_greet, lbl_kill, lbl_exchange, lbl_add])"

definition lbl_date :: pystr where "lbl_date = [0x65E5, 0x671F]"

text \<open>
  The label row of a 13-column sheet: date, exposure, greet, kill count, exchange,
  add, a blank column, and the same again for the second entity.
\<close>

definition label_row13 :: "cell list" where
  "label_row13 =
     [Text lbl_date, Text lbl_exposure, Text lbl_greet, Text lbl_kill, Text lbl_exchange,
      Text lbl_add, Missing,
      Text lbl_date, Text lbl_exposure, Text lbl_greet, Text lbl_kill, Text lbl_exchange,
      Text lbl_add]"

text \<open>The same row with columns 1 and 3 exchanged, and the exchange as a function.\<close>

definition swapped_row13 :: "cell list" where
  "swapped_row13 = label_row13[1 := label_row13 ! 3, 3 := label_row13 ! 1]"

definition swap13 :: "nat \<Rightarrow> nat" where
  "swap13 i = (if i = 1 then 3 else if i = 3 then 1 else i)"

text \<open>A label row whose column 1 carries the unknown label \<open>foo\<close>.\<close>

definition odd_header :: "cell list" where
  "odd_header = label_row13[1 := Text [102, 111, 111]]"

text \<open>A stable \<open>argsort\<close>: the positions ordered by key, equal keys in their order.\<close>

definition stable_argsort :: "timestamp list \<Rightarrow> nat list" where
  "stable_argsort keys = sort_key (\<lambda>i. keys ! i) [0 ..< length keys]"

text \<open>The rows of one date, in the order in which a table holds them.\<close>

definition rows_on :: "cell \<Rightarrow> (cell \<times> 'v list) list \<Rightarrow> (cell \<times> 'v list) list" where
  "rows_on d rs = filter (\<lambda>r. fst r = d) rs"

text \<open>
  A 12-column sheet, without kill-count columns: the row of entity names, the label
  row, and data rows made of a date cell and an exposure count for the first entity.
\<close>

definition names_row :: "nat \<Rightarrow> cell list" where
  "names_row n =
     (replicate n Missing)[0 := Text [65, 108, 105, 99, 101], 7 := Text [66, 111, 98]]"

definition label_row12 :: "cell list" where
  "label_row12 =
     [Text lbl_date, Text lbl_exposure, Text lbl_greet, Text lbl_exchange, Text lbl_add, Missing,
      Missing, Text lbl_date, Text lbl_exposure, Text lbl_greet, Text lbl_exchange, Text lbl_add]"

definition data_row12 :: "cell \<Rightarrow> rat \<Rightarrow> cell list" where
  "data_row12 d x =
     [d, Num x, Num 20, Num 4, Num 2, Missing, Missing, d, Num 90, Num 15, Num 0, Num 5]"

definition table_row12 :: "cell \<Rightarrow> rat \<Rightarrow> cell \<times> cell list" where
  "table_row12 d x = (d, [Num x, Num 20, Num 4, Num 2, Num 90, Num 15, Num 0, Num 5])"

definition columns12 :: "string list" where
  "columns12 =
     [''user1_exposure'', ''user1_greet'', ''user1_exchange'', ''user1_add'',
      ''user2_exposure'', ''user2_greet'', ''user2_exchange'', ''user2_add'']"

definition sheet12 :: sheet where
  "sheet12 = [names_row 12, label_row12, data_row12 (Num 45658) 7, data_row12 (Num 45657) 3]"

definition retained12 :: "cell frame" where
  "retained12 =
     \<lparr>date_dtype = Datetime64, columns = columns12,
      rows = [table_row12 (Stamp 45658) 7, table_row12 (Stamp 45657) 3]\<rparr>"

definition table12 :: "cell frame" where
  "table12 =
     \<lparr>date_dtype = Datetime64, columns = columns12,
      rows = [table_row12 (Stamp 45657) 3, table_row12 (Stamp 45658) 7]\<rparr>"

text \<open>The same sheet with one data row, whose date cell is the text \<open>TBD\<close>.\<close>

definition unreadable_body :: "cell list list" where
  "unreadable_body = [label_row12, data_row12 (Text [84, 66, 68]) 7]"

text \<open>
  Eighteen data rows of one date, numbered 1 to 18 in the exposure column, and an
  order in which the default \<open>quicksort\<close> of the library may return eighteen equal
  keys: above sixteen elements it partitions around the median of three, which
  exchanges positions 1..7 with 15..9, before the two parts are sorted by insertion.
\<close>

definition sheet18 :: sheet where
  "sheet18 =
     names_row 12 # label_row12 # map (\<lambda>k. data_row12 (Num 45657) (of_nat k)) [1 ..< 19]"

definition quicksort_order :: "nat list" where
  "quicksort_order = [0, 15, 14, 13, 12, 11, 10, 9, 8, 7, 6, 5, 4, 3, 2, 1, 16, 17]"

definition quicksort_argsort :: "timestamp list \<Rightarrow> nat list" where
  "quicksort_argsort keys =
     (if keys = replicate 18 (hd keys) then quicksort_order else stable_argsort keys)"

definition retained18 :: "cell frame" where
  "retained18 =
     \<lparr>date_dtype = Datetime64, columns = columns12,
      rows = map (\<lambda>k. table_row12 (Stamp 45657) (of_nat k)) [1 ..< 19]\<rparr>"

definition table18 :: "cell frame" where
  "table18 =
     \<lparr>date_dtype = Datetime64, columns = columns12,
      rows = map (\<lambda>k. table_row12 (Stamp 45657) (of_nat k))
               [1, 16, 15, 14, 13, 12, 11, 10, 9, 8, 7, 6, 5, 4, 3, 2, 17, 18]\<rparr>"

text \<open>
  A table of one row with numeric columns, in which the first entity has 5 adds and
  0 exchanges and the second 5 adds and 10 exchanges; and the same table with the two
  rate columns as the code computes them.
\<close>

definition scenario_d :: "fval frame" where
  "scenario_d =
     \<lparr>date_dtype = Datetime64, columns = columns12,
      rows = [(Stamp 45657, [Fin 100, Fin 20, Fin 0, Fin 5, Fin 90, Fin 15, Fin 10, Fin 5])]\<rparr>"

definition scenario_d_rates :: "fval frame" where
  "scenario_d_rates =
     \<lparr>date_dtype = Datetime64,
      columns = columns12 @ [''user1_conversion_rate'', ''user2_conversion_rate''],
      rows = [(Stamp 45657,
               [Fin 100, Fin 20, Fin 0, Fin 5, Fin 90, Fin 15, Fin 10, Fin 5, PosInf, Fin 50])]\<rparr>"

text \<open>
  A table of three days in which the first entity's greet count is absent on the
  second day and the second entity's greet count is absent throughout.
\<close>

definition three_days :: "fval frame" where
  "three_days =
     \<lparr>date_dtype = Datetime64, columns = columns12,
      rows = [(Stamp 45657, [Fin 100, Fin 20, Fin 4, Fin 2, Fin 90, NaN, Fin 10, Fin 5]),
              (Stamp 45658, [Fin 120, NaN, Fin 5, Fin 1, Fin 80, NaN, Fin 8, Fin 4]),
              (Stamp 45659, [Fin 110, Fin 30, Fin 6, Fin 3, Fin 70, NaN, Fin 9, Fin 3])]\<rparr>"


text \<open>The finite values of a column, in order: what is left when the absent ones are skipped.\<close>

fun finite_values :: "fval list \<Rightarrow> rat list" where
  "finite_values [] = []"
| "finite_values (Fin q # vs) = q # finite_values vs"
| "finite_values (v # vs) = finite_values vs"

text \<open>
  The statistics of the specification over the values present: their sum (0 when
  there is none), and their mean, largest and smallest, all three absent when there is
  none.
\<close>

definition spec_stats :: "rat list \<Rightarrow> stats \<Rightarrow> bool" where
  "spec_stats qs s \<longleftrightarrow>
     st_sum s = Fin (sum_list qs) \<and>
     (if qs = [] then st_mean s = NaN \<and> st_max s = NaN \<and> st_min s = NaN
      else st_mean s = Fin (sum_list qs / of_nat (length qs)) \<and>
           st_max s = Fin (Max (set qs)) \<and> st_min s = Fin (Min (set qs)))"






definition middle_day :: "fval frame" where
  "middle_day =
     \<lparr>date_dtype = Datetime64, columns = columns12,
      rows = [(Stamp 45658, [Fin 120, NaN, Fin 5, Fin 1, Fin 80, NaN, Fin 8, Fin 4])]\<rparr>"

definition last_two_days :: "fval frame" where
  "last_two_days =
     \<lparr>date_dtype = Datetime64, columns = columns12,
      rows = [(Stamp 45658, [Fin 120, NaN, Fin 5, Fin 1, Fin 80, NaN, Fin 8, Fin 4]),
              (Stamp 45659, [Fin 110, Fin 30, Fin 6, Fin 3, Fin 70, NaN, Fin 9, Fin 3])]\<rparr>"

definition no_days :: "fval frame" where
  "no_days = \<lparr>date_dtype = Datetime64, columns = columns12, rows = []\<rparr>"

text \<open>A column without infinite values: every value is finite or absent.\<close>

definition no_infinity :: "fval list \<Rightarrow> bool" where
  "no_infinity vs \<longleftrightarrow> PosInf \<notin> set vs \<and> NegInf \<notin> set vs"

text \<open>
  A table of two rows, the second dated at noon of day 45659; and a copy of the
  three-day table whose date column holds the same date-times as Python objects, in a
  column of type \<open>object\<close>, with the library's conversion of such a column, which
  yields the same points in time.
\<close>

definition noon_table :: "fval frame" where
  "noon_table =
     \<lparr>date_dtype = Datetime64, columns = columns12,
      rows = [(Stamp 45658, [Fin 120, NaN, Fin 5, Fin 1, Fin 80, NaN, Fin 8, Fin 4]),
              (Stamp (91319 / 2), [Fin 110, Fin 30, Fin 6, Fin 3, Fin 70, NaN, Fin 9, Fin 3])]\<rparr>"

definition object_dates :: "fval frame" where
  "object_dates = three_days\<lparr>date_dtype := Object\<rparr>"


section \<open>Properties of the date normaliser\<close>

lemma day_count_branch:
  assumes "1 \<le> x" "x \<le> 100000"
  shows "safe_convert_date parse from_origin (Num x) = Stamp (of_int \<lfloor>x\<rfloor>)"
proof -
  have "\<lfloor>x\<rfloor> \<le> 100000" using assms(2) by (simp add: floor_le_iff)
  then have "\<not> datetime_max_days < py_int x"
    using assms(1) by (simp add: py_int_def datetime_max_days_def)
  then show ?thesis using assms by (simp add: py_int_def)
qed

lemma fallback_branch:
  assumes "x < 1"
  shows "safe_convert_date parse from_origin (Num x) =
           (case from_origin (Num x) of Inl e \<Rightarrow> Missing | Inr t \<Rightarrow> Stamp t)"
  using assms by simp

text \<open>
  C3: every negative number, and 0.999, normalise to "no date".  In the code a number
  outside the day-count range never reaches \<open>convert_excel_date\<close>, whose guard rejects
  negative numbers; it goes to the fallback conversion of line 142, and with a library
  that places \<open>x\<close> days from the origin the results are dates: 1899-12-29 for \<open>-1\<close>,
  and 1899-12-30, 23:58:33.6 for 0.999.  The guard itself does reject \<open>-1\<close>.
\<close>

theorem negative_not_rejected:
  "safe_convert_date no_parse days_from_origin (Num (- 1)) = Stamp (- 1) \<and>
   safe_convert_date no_parse days_from_origin (Num (999 / 1000)) = Stamp (999 / 1000) \<and>
   convert_excel_date (Num (- 1)) = Inl NegativeSerial"
  by simp

text \<open>
  C10: for a number \<open>x\<close> with \<open>1 \<le> x \<le> 100000\<close> the normaliser returns the same date for
  \<open>x\<close> as for \<open>floor x\<close>: the day count is cut to whole days and added to 1899-12-30.
\<close>

theorem day_count_truncated:
  assumes "1 \<le> x" "x \<le> 100000"
  shows "safe_convert_date parse from_origin (Num x) =
           safe_convert_date parse from_origin (Num (of_int \<lfloor>x\<rfloor>)) \<and>
         safe_convert_date parse from_origin (Num x) = Stamp (of_int \<lfloor>x\<rfloor>)"
proof -
  have lo: "1 \<le> (of_int \<lfloor>x\<rfloor> :: rat)" using assms(1) by (simp add: le_floor_iff)
  have hi: "(of_int \<lfloor>x\<rfloor> :: rat) \<le> 100000" using assms(2) by (simp add: floor_le_iff)
  show ?thesis
    using day_count_branch [OF assms, of parse from_origin]
      day_count_branch [OF lo hi, of parse from_origin] by simp
qed

theorem day_count_truncated_witness:
  "(1::rat) \<le> 183831 / 4 \<and> (183831 / 4 :: rat) \<le> 100000 \<and>
   safe_convert_date no_parse days_from_origin (Num (183831 / 4)) =
     safe_convert_date no_parse days_from_origin (Num 45957) \<and>
   safe_convert_date no_parse days_from_origin (Num (183831 / 4)) = Stamp 45957"
proof -
  have f: "\<lfloor>183831 / 4 :: rat\<rfloor> = 45957" by (simp add: floor_eq_iff)
  show ?thesis using day_count_truncated [of "183831 / 4" no_parse days_from_origin] f
    by (simp add: py_int_def datetime_max_days_def)
qed

section \<open>Properties of the header resolver\<close>

lemmas label_defs =
  lbl_exposure_def lbl_greet_def lbl_kill_def lbl_exchange_def lbl_add_def lbl_date_def

lemma field_of_label_None_iff:
  "field_of_label user (header_val c) = None \<longleftrightarrow> \<not> recognised c"
  by (auto simp: field_of_label_def recognised_def split: option.splits)

lemma map_of_fold_scan:
  "map_of (fold (\<lambda>col_idx cols.
             case f col_idx of None \<Rightarrow> cols | Some name \<Rightarrow> AList.update col_idx name cols) js acc) i
   = (if i \<in> set js \<and> f i \<noteq> None then f i else map_of acc i)"
  by (induction js arbitrary: acc) (auto simp: update_conv' split: option.splits)

lemma distinct_fold_scan:
  "distinct (map fst acc) \<Longrightarrow>
   distinct (map fst (fold (\<lambda>col_idx cols.
             case f col_idx of None \<Rightarrow> cols | Some name \<Rightarrow> AList.update col_idx name cols) js acc))"
  by (induction js arbitrary: acc) (auto simp: distinct_update split: option.splits)

lemma map_of_scan_block:
  "map_of (scan_block user lo hi h) i =
     (if lo \<le> i \<and> i < min hi (length h) \<and> recognised (h ! i)
      then field_of_label user (header_val (h ! i)) else None)"
  unfolding scan_block_def
  by (simp add: map_of_fold_scan field_of_label_None_iff)

lemma distinct_scan_block: "distinct (map fst (scan_block user lo hi h))"
  unfolding scan_block_def by (rule distinct_fold_scan) simp

lemma map_of_merge_cols:
  "distinct (map fst cols) \<Longrightarrow>
   map_of (merge_cols n cols m) i =
     (case map_of cols i of
        Some name \<Rightarrow> if i < n then Some name else map_of m i
      | None \<Rightarrow> map_of m i)"
  unfolding merge_cols_def
proof (induction cols arbitrary: m)
  case Nil
  then show ?case by simp
next
  case (Cons kv cols)
  obtain k v where kv: "kv = (k, v)" by (cases kv)
  have notin: "map_of cols k = None"
    using Cons.prems by (auto simp: kv map_of_eq_None_iff image_iff)
  show ?case
    using Cons.IH [of "if k < n then AList.update k v m else m"] Cons.prems notin
    by (auto simp: kv update_conv' split: option.splits)
qed

lemma column_mapping_at:
  "map_of (column_mapping n h) i =
     (if 1 \<le> i \<and> i < min 6 (length h) \<and> i < n \<and> recognised (h ! i)
      then field_of_label ''user1'' (header_val (h ! i))
      else if 8 \<le> i \<and> i < min 13 (length h) \<and> i < n \<and> recognised (h ! i)
      then field_of_label ''user2'' (header_val (h ! i))
      else if i = 1 then Some ''user1_exposure''
      else if i = 2 then Some ''user1_greet''
      else None)"
  unfolding column_mapping_def Let_def
  by (auto simp: map_of_merge_cols distinct_scan_block map_of_scan_block
        field_of_label_None_iff split: option.splits)

lemmas header_eval =
  column_mapping_at odd_header_def label_row13_def swapped_row13_def swap13_def recognised_def
  field_of_label_def strip_def is_space_def label_defs

lemma mapping_block1:
  assumes "12 \<le> length h" "length h \<le> n" "1 \<le> i" "i \<le> 5"
  shows "map_of (column_mapping n h) i =
           (if recognised (h ! i) then field_of_label ''user1'' (header_val (h ! i))
            else if i = 1 then Some ''user1_exposure''
            else if i = 2 then Some ''user1_greet'' else None)"
proof -
  have "i < 6" "i < length h" "i < n" "\<not> 8 \<le> i" using assms by auto
  then show ?thesis using assms(3) by (simp add: column_mapping_at)
qed

lemma mapping_block2:
  assumes "12 \<le> length h" "length h \<le> n" "8 \<le> i" "i \<le> 12"
  shows "map_of (column_mapping n h) i =
           (if i < length h \<and> recognised (h ! i)
            then field_of_label ''user2'' (header_val (h ! i)) else None)"
proof (cases "i < length h")
  case True
  have "\<not> i < 6" "i < 13" "i < n" "i \<noteq> 1" "i \<noteq> 2" using assms True by auto
  then show ?thesis using assms(3) True by (simp add: column_mapping_at)
next
  case False
  have "\<not> i < 6" "i \<noteq> 1" "i \<noteq> 2" using assms by auto
  then show ?thesis using False by (simp add: column_mapping_at)
qed

lemma mapping_outside:
  assumes "i = 0 \<or> i = 6 \<or> i = 7 \<or> 13 \<le> i"
  shows "map_of (column_mapping n h) i = None"
proof -
  consider "i = 0" | "i = 6 \<or> i = 7" | "13 \<le> i" using assms by blast
  then show ?thesis
  proof cases
    case 1
    then show ?thesis by (simp add: column_mapping_at)
  next
    case 2
    then have "\<not> i < 6" "\<not> 8 \<le> i" "i \<noteq> 1" "i \<noteq> 2" by auto
    then show ?thesis by (simp add: column_mapping_at)
  next
    case 3
    then have "\<not> i < 6" "\<not> i < 13" "i \<noteq> 1" "i \<noteq> 2" by auto
    then show ?thesis by (simp add: column_mapping_at)
  qed
qed

text \<open>
  C6: the mapping follows the label text alone, whatever the order of the columns in a
  block, and every column whose label is none of the five is left unmapped.  The
  dictionary is seeded with positional entries for columns 1 and 2 (lines 154--157)
  before the labels are read, so on a label row whose column 1 carries the unknown
  label \<open>foo\<close> that column stays mapped to \<open>user1_exposure\<close>; exchanged with column 3
  it is no longer mapped, so the mapping depends on the order.
\<close>

theorem unmatched_column_mapped:
  "\<not> recognised (odd_header ! 1) \<and>
   map_of (column_mapping 13 odd_header) 1 = Some ''user1_exposure'' \<and>
   map_of (column_mapping 13 (odd_header[1 := odd_header ! 3, 3 := odd_header ! 1])) 3 = None"
  by (simp add: header_eval)

text \<open>
  The block of the second entity has no such seed: there an unknown label leaves its
  column unmapped.
\<close>

lemma second_block_has_no_default:
  "\<not> recognised (label_row13[8 := Text [102, 111, 111]] ! 8) \<and>
   map_of (column_mapping 13 (label_row13[8 := Text [102, 111, 111]])) 8 = None"
  by (simp add: header_eval)

text \<open>
  What does hold: when columns 1 and 2 carry recognised labels, before and after, the
  mapping follows the labels alone.  After the columns of a block are rearranged among
  themselves (\<open>p i\<close> is the former position of the column now at \<open>i\<close>) every column is
  mapped to the same canonical field as before, and every column whose label is none
  of the five is left unmapped.
\<close>

lemma mapping_follows_labels:
  assumes "12 \<le> length h" "length h \<le> n" "length h' = length h"
    and "\<forall>i. (i < length h \<longleftrightarrow> p i < length h) \<and> (i < length h \<longrightarrow> h' ! i = h ! p i)"
    and "\<forall>i. (1 \<le> i \<and> i \<le> 5 \<longrightarrow> 1 \<le> p i \<and> p i \<le> 5) \<and>
             (8 \<le> i \<and> i \<le> 12 \<longrightarrow> 8 \<le> p i \<and> p i \<le> 12) \<and>
             (i = 0 \<or> i = 6 \<or> i = 7 \<or> 13 \<le> i \<longrightarrow> p i = i)"
    and "recognised (h ! 1)" "recognised (h ! 2)" "recognised (h' ! 1)" "recognised (h' ! 2)"
  shows "map_of (column_mapping n h') i = map_of (column_mapping n h) (p i) \<and>
         (\<not> recognised (h ! i) \<longrightarrow> map_of (column_mapping n h) i = None)"
proof -
  have w': "12 \<le> length h'" "length h' \<le> n" using assms(1-3) by simp_all
  from assms(4) have a4: "(i < length h \<longleftrightarrow> p i < length h) \<and> (i < length h \<longrightarrow> h' ! i = h ! p i)"
    by (rule allE)
  from assms(5) have a5: "(1 \<le> i \<and> i \<le> 5 \<longrightarrow> 1 \<le> p i \<and> p i \<le> 5) \<and>
             (8 \<le> i \<and> i \<le> 12 \<longrightarrow> 8 \<le> p i \<and> p i \<le> 12) \<and>
             (i = 0 \<or> i = 6 \<or> i = 7 \<or> 13 \<le> i \<longrightarrow> p i = i)"
    by (rule allE)
  have inside: "i < length h \<longleftrightarrow> p i < length h" using a4 by (rule conjunct1)
  have same: "i < length h \<Longrightarrow> h' ! i = h ! p i" using a4 by simp
  consider (b1) "1 \<le> i" "i \<le> 5" | (b2) "8 \<le> i" "i \<le> 12"
    | (out) "i = 0 \<or> i = 6 \<or> i = 7 \<or> 13 \<le> i"
    by linarith
  then show ?thesis
  proof cases
    case b1
    have pi: "1 \<le> p i" "p i \<le> 5" using a5 b1 by simp_all
    have il: "i < length h" using b1 assms(1) by simp
    have eq: "h' ! i = h ! p i" by (rule same [OF il])
    note l = mapping_block1 [OF w' b1]
    note r = mapping_block1 [OF assms(1,2) pi]
    note u = mapping_block1 [OF assms(1,2) b1]
    have part2: "\<not> recognised (h ! i) \<longrightarrow> map_of (column_mapping n h) i = None"
    proof
      assume nr: "\<not> recognised (h ! i)"
      then have "i \<noteq> 1" "i \<noteq> 2" using assms(6,7) by auto
      with nr show "map_of (column_mapping n h) i = None" by (simp add: u)
    qed
    have part1: "map_of (column_mapping n h') i = map_of (column_mapping n h) (p i)"
    proof (cases "recognised (h ! p i)")
      case True
      then show ?thesis by (simp add: l r eq)
    next
      case False
      then have "i \<noteq> 1" "i \<noteq> 2" "p i \<noteq> 1" "p i \<noteq> 2"
        using eq assms(6-9) by auto
      with False show ?thesis by (simp add: l r eq)
    qed
    from part1 part2 show ?thesis by (rule conjI)
  next
    case b2
    have pi: "8 \<le> p i" "p i \<le> 12" using a5 b2 by simp_all
    note l = mapping_block2 [OF w' b2]
    note r = mapping_block2 [OF assms(1,2) pi]
    note u = mapping_block2 [OF assms(1,2) b2]
    have part2: "\<not> recognised (h ! i) \<longrightarrow> map_of (column_mapping n h) i = None"
      by (simp add: u)
    have part1: "map_of (column_mapping n h') i = map_of (column_mapping n h) (p i)"
    proof (cases "i < length h")
      case True
      then have "p i < length h" using inside by simp
      with True show ?thesis by (simp add: l r same [OF True] assms(3))
    next
      case False
      then have "\<not> p i < length h" using inside by simp
      with False show ?thesis by (simp add: l r assms(3))
    qed
    from part1 part2 show ?thesis by (rule conjI)
  next
    case out
    then have "p i = i" using a5 by simp
    then show ?thesis by (simp add: mapping_outside [OF out])
  qed
qed

lemma mapping_follows_labels_at_sample:
  "map_of (column_mapping 13 swapped_row13) 3 = map_of (column_mapping 13 label_row13) (swap13 3) \<and>
   map_of (column_mapping 13 swapped_row13) 3 = Some ''user1_exposure'' \<and>
   map_of (column_mapping 13 swapped_row13) 1 = Some ''user1_kill'' \<and>
   \<not> recognised (label_row13 ! 6) \<and> map_of (column_mapping 13 label_row13) 6 = None"
proof -
  have len: "length label_row13 = 13" by (simp add: label_row13_def)
  have w: "12 \<le> length label_row13" "length label_row13 \<le> 13"
    "length swapped_row13 = length label_row13"
    by (simp_all add: label_row13_def swapped_row13_def)
  have p: "\<forall>i. (i < length label_row13 \<longleftrightarrow> swap13 i < length label_row13) \<and>
             (i < length label_row13 \<longrightarrow> swapped_row13 ! i = label_row13 ! swap13 i)"
    by (auto simp: swapped_row13_def swap13_def nth_list_update len)
  have b: "\<forall>i. (1 \<le> i \<and> i \<le> 5 \<longrightarrow> 1 \<le> swap13 i \<and> swap13 i \<le> 5) \<and>
             (8 \<le> i \<and> i \<le> 12 \<longrightarrow> 8 \<le> swap13 i \<and> swap13 i \<le> 12) \<and>
             (i = 0 \<or> i = 6 \<or> i = 7 \<or> 13 \<le> i \<longrightarrow> swap13 i = i)"
    by (auto simp: swap13_def)
  have r: "recognised (label_row13 ! 1)" "recognised (label_row13 ! 2)"
    "recognised (swapped_row13 ! 1)" "recognised (swapped_row13 ! 2)"
    by (simp_all add: label_row13_def swapped_row13_def recognised_def strip_def is_space_def
          label_defs)
  have e: "map_of (column_mapping 13 label_row13) 1 = Some ''user1_exposure''"
    "map_of (column_mapping 13 label_row13) 3 = Some ''user1_kill''"
    "\<not> recognised (label_row13 ! 6)"
    by (simp_all add: header_eval)
  show ?thesis
    using mapping_follows_labels [OF w p b r, of 3] mapping_follows_labels [OF w p b r, of 1]
      mapping_follows_labels [OF w p b r, of 6] e
    by (simp add: swap13_def)
qed

section \<open>Properties of the loader\<close>

lemma safe_convert_date_cases:
  "safe_convert_date parse from_origin c = Missing \<or> is_stamp (safe_convert_date parse from_origin c)"
  by (cases c) (auto split: option.splits sum.splits)

lemma safe_convert_date_fix:
  "c = Missing \<or> is_stamp c \<Longrightarrow> safe_convert_date parse from_origin c = c"
  by (cases c) auto

lemma convert_dates_map: "convert_dates parse from_origin cs = map (safe_convert_date parse from_origin) cs"
proof (cases "col_dtype cs = Datetime64")
  case True
  then have "list_all (\<lambda>c. c = Missing \<or> is_stamp c) cs"
    by (auto simp: col_dtype_def split: if_splits)
  then have "\<forall>c \<in> set cs. safe_convert_date parse from_origin c = c"
    by (simp add: list_all_iff safe_convert_date_fix)
  then have "map (safe_convert_date parse from_origin) cs = cs"
    by (simp add: map_idI)
  with True show ?thesis by (simp add: convert_dates_def)
next
  case False
  then show ?thesis by (simp add: convert_dates_def)
qed

lemma map_fst_zip_rows:
  "length rs = length vs \<Longrightarrow> map (fst \<circ> (\<lambda>(r, v). (fst r, g r v))) (zip rs vs) = map fst rs"
  by (induction rs vs rule: list_induct2) auto

lemma set_column_dates:
  "length vs = length (rows df) \<Longrightarrow> map fst (rows (set_column c vs df)) = map fst (rows df)"
  by (simp add: set_column_def map_fst_zip_rows split: option.splits)

lemma set_column_dtype: "date_dtype (set_column c vs df) = date_dtype df"
  by (simp add: set_column_def split: option.splits)

lemma fold_set_column_dates:
  "length (rows df) = length body \<Longrightarrow>
   map fst (rows (fold (\<lambda>(old_col, new_col) df.
                          if old_col < n
                          then set_column new_col (map (\<lambda>r. cell_at r old_col) body) df
                          else df) mapping df)) = map fst (rows df)"
proof (induction mapping arbitrary: df)
  case Nil
  then show ?case by simp
next
  case (Cons kv mapping)
  obtain old new where kv: "kv = (old, new)" by (cases kv)
  let ?df' = "if old < n then set_column new (map (\<lambda>r. cell_at r old) body) df else df"
  have d: "map fst (rows ?df') = map fst (rows df)"
    using Cons.prems by (simp add: set_column_dates)
  then have "length (rows ?df') = length body"
    using Cons.prems by (metis length_map)
  from Cons.IH [OF this] d show ?case by (simp add: kv)
qed

lemma fold_set_column_dtype:
  "date_dtype (fold (\<lambda>(old_col, new_col) df.
                          if old_col < n
                          then set_column new_col (map (\<lambda>r. cell_at r old_col) body) df
                          else df) mapping df) = date_dtype df"
  by (induction mapping arbitrary: df) (auto simp: set_column_dtype)

lemma select_columns_dates:
  "length dates = length body \<Longrightarrow>
   map fst (rows (select_columns n mapping body dates)) = dates"
  unfolding select_columns_def
  by (subst fold_set_column_dates) (simp_all add: comp_def)

lemma select_columns_dtype: "date_dtype (select_columns n mapping body dates) = Datetime64"
  unfolding select_columns_def by (simp add: fold_set_column_dtype)

lemma build_table_wide:
  assumes "body \<noteq> []" "12 \<le> length headers"
  shows "build_table parse from_origin (headers # body) =
           (let date_col = map (\<lambda>r. cell_at r 0) body;
                new_df = select_columns (length headers)
                           (column_mapping (length headers) (hd body)) body
                           (map (safe_convert_date parse from_origin) date_col)
            in if \<forall>r \<in> set body. safe_convert_date parse from_origin (cell_at r 0) = Missing
               then Inl (NoValidDates (col_dtype date_col) (take 5 date_col))
               else Inr (new_df\<lparr>rows := filter (\<lambda>r. fst r \<noteq> Missing) (rows new_df)\<rparr>))"
proof -
  let ?date_col = "map (\<lambda>r. cell_at r 0) body"
  let ?dates = "map (safe_convert_date parse from_origin) ?date_col"
  let ?new_df = "select_columns (length headers)
                   (column_mapping (length headers) (hd body)) body ?dates"
  have hs: "headers \<noteq> []" using assms(2) by auto
  have d: "map fst (rows ?new_df) = ?dates"
    by (rule select_columns_dates) simp
  have "filter (\<lambda>r. fst r \<noteq> Missing) (rows ?new_df) = [] \<longleftrightarrow>
          (\<forall>c \<in> set (map fst (rows ?new_df)). c = Missing)"
    by (auto simp: filter_empty_conv)
  also have "\<dots> \<longleftrightarrow> (\<forall>r \<in> set body. safe_convert_date parse from_origin (cell_at r 0) = Missing)"
    unfolding d by simp
  finally have k: "filter (\<lambda>r. fst r \<noteq> Missing) (rows ?new_df) = [] \<longleftrightarrow>
          (\<forall>r \<in> set body. safe_convert_date parse from_origin (cell_at r 0) = Missing)" .
  show ?thesis
    using assms hs k by (simp add: build_table_def convert_dates_map Let_def)
qed

lemma build_table_Inr:
  assumes "build_table parse from_origin sh = Inr df"
  obtains headers body where "sh = headers # body" "body \<noteq> []" "12 \<le> length headers"
  using assms by (cases sh) (auto simp: build_table_def split: if_splits)

lemma build_table_stamps:
  assumes "build_table parse from_origin sh = Inr df"
  shows "\<forall>r \<in> set (rows df). is_stamp (fst r)" and "date_dtype df = Datetime64"
proof -
  from assms obtain headers body
    where sh: "sh = headers # body" and w: "body \<noteq> []" "12 \<le> length headers"
    by (rule build_table_Inr)
  let ?dates = "map (safe_convert_date parse from_origin) (map (\<lambda>r. cell_at r 0) body)"
  let ?new_df = "select_columns (length headers)
                   (column_mapping (length headers) (hd body)) body ?dates"
  have df: "df = ?new_df\<lparr>rows := filter (\<lambda>r. fst r \<noteq> Missing) (rows ?new_df)\<rparr>"
    using assms unfolding sh build_table_wide [OF w] by (simp add: Let_def split: if_splits)
  have d: "map fst (rows ?new_df) = ?dates"
    by (rule select_columns_dates) simp
  have "\<forall>c \<in> set (map fst (rows ?new_df)). c = Missing \<or> is_stamp c"
    unfolding d using safe_convert_date_cases by auto
  then show "\<forall>r \<in> set (rows df). is_stamp (fst r)"
    unfolding df by auto
  show "date_dtype df = Datetime64"
    unfolding df by (simp add: select_columns_dtype)
qed

lemma mset_take_indexer:
  assumes "mset indexer = mset [0 ..< length xs]"
  shows "mset (map (\<lambda>i. xs ! i) indexer) = mset xs"
proof -
  have "mset (map (\<lambda>i. xs ! i) indexer) = image_mset (\<lambda>i. xs ! i) (mset indexer)"
    by simp
  also have "\<dots> = mset (map (\<lambda>i. xs ! i) [0 ..< length xs])"
    unfolding assms by simp
  also have "\<dots> = mset xs" by (simp add: map_nth)
  finally show ?thesis .
qed

lemma keys_take_indexer:
  assumes "mset indexer = mset [0 ..< length xs]"
  shows "map f (map (\<lambda>i. xs ! i) indexer) = map (\<lambda>i. map f xs ! i) indexer"
proof -
  have "set indexer = set [0 ..< length xs]" using assms by (rule mset_eq_setD)
  then have "\<forall>i \<in> set indexer. i < length xs" by simp
  then show ?thesis by simp
qed

lemma sort_values_stamps:
  assumes "\<forall>r \<in> set rs. is_stamp (fst r)"
  shows "sort_values argsort rs =
           map (\<lambda>i. rs ! i) (argsort (map (\<lambda>r. key_of (fst r)) rs))"
proof -
  have "filter (\<lambda>r. is_stamp (fst r)) rs = rs" "filter (\<lambda>r. \<not> is_stamp (fst r)) rs = []"
    using assms by (simp_all add: filter_id_conv filter_empty_conv)
  then show ?thesis by (simp add: sort_values_def)
qed

text \<open>
  C4, amended: whenever the library's \<open>argsort\<close> keeps its promise on the dates of the
  retained rows, the table is sorted by date in ascending order (equal dates allowed),
  no row has a null date, and its rows are the retained rows, each as often as it was
  retained.  Nothing is said about the order of rows of equal date.
\<close>

theorem table_sorted_by_date:
  assumes "build_table parse from_origin sh = Inr new_df"
    and "argsort_ok (map (\<lambda>r. key_of (fst r)) (rows new_df))
           (argsort (map (\<lambda>r. key_of (fst r)) (rows new_df)))"
  shows "load_excel_data argsort parse from_origin sh =
           Inr (new_df\<lparr>rows := sort_values argsort (rows new_df)\<rparr>) \<and>
         sorted (map (\<lambda>r. key_of (fst r)) (sort_values argsort (rows new_df))) \<and>
         (\<forall>r \<in> set (sort_values argsort (rows new_df)). is_stamp (fst r)) \<and>
         mset (sort_values argsort (rows new_df)) = mset (rows new_df)"
proof -
  let ?keys = "map (\<lambda>r. key_of (fst r)) (rows new_df)"
  have st: "\<forall>r \<in> set (rows new_df). is_stamp (fst r)"
    using build_table_stamps(1) [OF assms(1)] .
  have sv: "sort_values argsort (rows new_df) = map (\<lambda>i. rows new_df ! i) (argsort ?keys)"
    by (rule sort_values_stamps [OF st])
  have perm: "mset (argsort ?keys) = mset [0 ..< length (rows new_df)]"
    and srt: "sorted (map (\<lambda>i. ?keys ! i) (argsort ?keys))"
    using assms(2) by (simp_all add: argsort_ok_def)
  have m: "mset (sort_values argsort (rows new_df)) = mset (rows new_df)"
    unfolding sv by (rule mset_take_indexer [OF perm])
  have "set (sort_values argsort (rows new_df)) = set (rows new_df)"
    using m by (rule mset_eq_setD)
  then have s: "\<forall>r \<in> set (sort_values argsort (rows new_df)). is_stamp (fst r)"
    using st by simp
  have k: "sorted (map (\<lambda>r. key_of (fst r)) (sort_values argsort (rows new_df)))"
    unfolding sv keys_take_indexer [OF perm] by (rule srt)
  have l: "load_excel_data argsort parse from_origin sh =
             Inr (new_df\<lparr>rows := sort_values argsort (rows new_df)\<rparr>)"
    using assms(1) by (simp add: load_excel_data_def)
  from l k s m show ?thesis by simp
qed


lemmas loader_defs =
  load_excel_data_def build_table_def select_columns_def column_mapping_def scan_block_def
  merge_cols_def field_of_label_def convert_dates_def col_dtype_def cell_at_def set_column_def
  sort_values_def strip_def is_space_def date_labels_def datetime_max_days_def py_int_def
  no_parse_def stable_argsort_def Let_def upt_rec

lemmas sheet_defs =
  sheet12_def names_row_def label_row12_def data_row12_def table_row12_def columns12_def
  retained12_def table12_def unreadable_body_def sheet18_def retained18_def table18_def

lemma build12: "build_table no_parse days_from_origin sheet12 = Inr retained12"
  by (simp add: loader_defs label_defs sheet_defs)

lemma build18: "build_table no_parse days_from_origin sheet18 = Inr retained18"
  by (simp add: loader_defs label_defs sheet_defs)

lemma keys18: "map (\<lambda>r. key_of (fst r)) (rows retained18) = replicate 18 45657"
  by (simp add: retained18_def table_row12_def upt_rec eval_nat_numeral)

text \<open>
  C4, as stated: the sort is stable.  The code asks for no stable algorithm, and the
  default one is not: on eighteen retained rows of one date an \<open>argsort\<close> that keeps
  its promise returns them in another order than the sheet's.
\<close>

theorem equal_dates_reordered:
  "argsort_ok (replicate 18 45657) (quicksort_argsort (replicate 18 45657)) \<and>
   build_table no_parse days_from_origin sheet18 = Inr retained18 \<and>
   load_excel_data quicksort_argsort no_parse days_from_origin sheet18 = Inr table18 \<and>
   rows_on (Stamp 45657) (rows table18) \<noteq> rows_on (Stamp 45657) (rows retained18)"
proof -
  have q: "quicksort_argsort (replicate 18 45657) = quicksort_order"
    by (simp add: quicksort_argsort_def eval_nat_numeral)
  have a: "argsort_ok (replicate 18 45657) quicksort_order"
    by (simp add: argsort_ok_def quicksort_order_def upt_rec eval_nat_numeral nth_Cons')
  have st: "\<forall>r \<in> set (rows retained18). is_stamp (fst r)"
    by (rule build_table_stamps(1) [OF build18])
  have "sort_values quicksort_argsort (rows retained18) = map (\<lambda>i. rows retained18 ! i) quicksort_order"
    by (simp add: sort_values_stamps [OF st] keys18 q)
  also have "\<dots> = rows table18"
    by (simp add: retained18_def table18_def quicksort_order_def upt_rec)
  finally have sv: "sort_values quicksort_argsort (rows retained18) = rows table18" .
  have l: "load_excel_data quicksort_argsort no_parse days_from_origin sheet18 = Inr table18"
    using sv by (simp add: load_excel_data_def build18) (simp add: retained18_def table18_def)
  have n: "rows_on (Stamp 45657) (rows table18) \<noteq> rows_on (Stamp 45657) (rows retained18)"
    by (simp add: rows_on_def retained18_def table18_def table_row12_def upt_rec)
  from a q build18 l n show ?thesis by simp
qed

theorem table_sorted_by_date_witness:
  "build_table no_parse days_from_origin sheet12 = Inr retained12 \<and>
   argsort_ok [45658, 45657] (stable_argsort [45658, 45657]) \<and>
   load_excel_data stable_argsort no_parse days_from_origin sheet12 = Inr table12 \<and>
   map fst (rows table12) = [Stamp 45657, Stamp 45658] \<and>
   mset (rows table12) = mset (rows retained12)"
proof -
  have k: "map (\<lambda>r. key_of (fst r)) (rows retained12) = [45658, 45657]"
    by (simp add: retained12_def table_row12_def)
  have a: "argsort_ok [45658, 45657] (stable_argsort [45658, 45657])"
    by (simp add: argsort_ok_def stable_argsort_def upt_rec)
  have s: "sort_values stable_argsort (rows retained12) = rows table12"
    by (simp add: sort_values_def stable_argsort_def retained12_def table12_def table_row12_def
          upt_rec)
  have t: "retained12\<lparr>rows := rows table12\<rparr> = table12"
    by (simp add: retained12_def table12_def)
  show ?thesis
    using table_sorted_by_date [of no_parse days_from_origin sheet12 retained12 stable_argsort] build12 a k s t
    by (simp add: table12_def table_row12_def)
qed


text \<open>
  C2: on a table built from a 12-column sheet the lookup of the kill-count metric
  returns sequences of absent values and raises nothing.  The code raises: the table
  has no kill-count columns at all, and \<open>df['user1_kill']\<close> is a \<open>KeyError\<close>.
\<close>

theorem kill_lookup_raises:
  "load_excel_data stable_argsort no_parse days_from_origin sheet12 = Inr table12 \<and>
   get_metric_data [table12] 0 lbl_kill = ([table12], Inl (KeyError ''user1_kill''))"
proof -
  have "load_excel_data stable_argsort no_parse days_from_origin sheet12 = Inr table12"
    by (simp add: loader_defs label_defs sheet_defs)
  moreover have "get_metric_data [table12] 0 lbl_kill = ([table12], Inl (KeyError ''user1_kill''))"
    by (simp add: get_metric_data_def metric_mapping_def label_defs get_column_def table12_def
          columns12_def)
  ultimately show ?thesis by simp
qed

section \<open>Properties of the query layer\<close>






lemmas frame_defs =
  three_days_def last_two_days_def middle_day_def no_days_def noon_table_def object_dates_def
  scenario_d_def scenario_d_rates_def columns12_def




text \<open>
  C1: a row with 0 exchanges and 5 adds has an absent conversion rate, neither
  infinite nor zero.  The code divides the two float columns, and 5 / 0 is \<open>+inf\<close>; the
  comment of line 61 says the result is already \<open>NaN\<close>.
\<close>

theorem conversion_rate_infinite:
  "calculate_conversion_rates [scenario_d] 0 = ([scenario_d, scenario_d_rates], Inr 1)"
  by (simp add: calculate_conversion_rates_def get_column_def set_column_def conversion_rate_def
        frame_defs Let_def)

text \<open>
  The branch of line 27: when the date column is not of a date-time type and the
  library converts it, the filter writes the converted column into the caller's table.
\<close>

lemma filter_converts_callers_dates:
  assumes "df < length \<sigma>" "date_dtype (\<sigma> ! df) \<noteq> Datetime64"
    and "to_datetime (map fst (rows (\<sigma> ! df))) = Inr ds"
  shows "fst (filter_by_date_range to_datetime \<sigma> df s e) ! df \<noteq> \<sigma> ! df"
proof -
  have "date_dtype (fst (filter_by_date_range to_datetime \<sigma> df s e) ! df) = Datetime64"
    using assms by (simp add: filter_by_date_range_def Let_def nth_append)
  with assms(2) show ?thesis by auto
qed




section \<open>Properties of the statistics\<close>

lemma no_infinity_Cons:
  "no_infinity (v # vs) \<longleftrightarrow> (v = NaN \<or> (\<exists>q. v = Fin q)) \<and> no_infinity vs"
  by (cases v) (auto simp: no_infinity_def)

lemma count_valid_finite: "no_infinity vs \<Longrightarrow> count_valid vs = length (finite_values vs)"
  unfolding count_valid_def
  by (induction vs) (auto simp: no_infinity_Cons)

lemma foldl_fadd_finite:
  "no_infinity vs \<Longrightarrow>
   foldl fadd (Fin a) (map (\<lambda>v. if v = NaN then Fin 0 else v) vs) =
     Fin (a + sum_list (finite_values vs))"
  by (induction vs arbitrary: a) (auto simp: no_infinity_Cons algebra_simps)

lemma nansum_finite: "no_infinity vs \<Longrightarrow> nansum vs = Fin (sum_list (finite_values vs))"
  by (simp add: nansum_def foldl_fadd_finite)

lemma nanmean_finite:
  assumes "no_infinity vs"
  shows "nanmean vs =
           (if finite_values vs = [] then NaN
            else Fin (sum_list (finite_values vs) / of_nat (length (finite_values vs))))"
  using assms by (simp add: nanmean_def count_valid_finite nansum_finite)

lemma foldl_fmax_Fin:
  "no_infinity vs \<Longrightarrow>
   foldl fmax (Fin a) (map (\<lambda>v. if v = NaN then NegInf else v) vs) =
     Fin (fold max (finite_values vs) a)"
  by (induction vs arbitrary: a) (auto simp: no_infinity_Cons fmax_def max_def)

lemma foldl_fmax_NegInf:
  "no_infinity vs \<Longrightarrow>
   foldl fmax NegInf (map (\<lambda>v. if v = NaN then NegInf else v) vs) =
     (case finite_values vs of [] \<Rightarrow> NegInf | q # qs \<Rightarrow> Fin (fold max qs q))"
  by (induction vs) (auto simp: no_infinity_Cons fmax_def foldl_fmax_Fin)

lemma foldl_fmin_Fin:
  "no_infinity vs \<Longrightarrow>
   foldl fmin (Fin a) (map (\<lambda>v. if v = NaN then PosInf else v) vs) =
     Fin (fold min (finite_values vs) a)"
  by (induction vs arbitrary: a) (auto simp: no_infinity_Cons fmin_def min_def)

lemma foldl_fmin_PosInf:
  "no_infinity vs \<Longrightarrow>
   foldl fmin PosInf (map (\<lambda>v. if v = NaN then PosInf else v) vs) =
     (case finite_values vs of [] \<Rightarrow> PosInf | q # qs \<Rightarrow> Fin (fold min qs q))"
  by (induction vs) (auto simp: no_infinity_Cons fmin_def foldl_fmin_Fin)

lemma fold_max_Max: "fold max qs q = Max (insert q (set qs))"
  using Max.set_eq_fold [of q qs] by simp

lemma fold_min_Min: "fold min qs q = Min (insert q (set qs))"
  using Min.set_eq_fold [of q qs] by simp

lemma nanmax_finite:
  assumes "no_infinity vs"
  shows "nanmax vs = (if finite_values vs = [] then NaN else Fin (Max (set (finite_values vs))))"
proof (cases vs)
  case Nil
  then show ?thesis by (simp add: nanmax_def)
next
  case (Cons v ws)
  with assms have w: "no_infinity ws" and v: "v = NaN \<or> (\<exists>q. v = Fin q)"
    by (simp_all add: no_infinity_Cons)
  from v show ?thesis
  proof
    assume "v = NaN"
    then show ?thesis
      using w Cons assms
      by (auto simp: nanmax_def count_valid_finite foldl_fmax_NegInf fold_max_Max
            split: list.splits)
  next
    assume "\<exists>q. v = Fin q"
    then obtain q where "v = Fin q" ..
    then show ?thesis
      using w Cons assms
      by (simp add: nanmax_def count_valid_finite foldl_fmax_Fin fold_max_Max)
  qed
qed

lemma nanmin_finite:
  assumes "no_infinity vs"
  shows "nanmin vs = (if finite_values vs = [] then NaN else Fin (Min (set (finite_values vs))))"
proof (cases vs)
  case Nil
  then show ?thesis by (simp add: nanmin_def)
next
  case (Cons v ws)
  with assms have w: "no_infinity ws" and v: "v = NaN \<or> (\<exists>q. v = Fin q)"
    by (simp_all add: no_infinity_Cons)
  from v show ?thesis
  proof
    assume "v = NaN"
    then show ?thesis
      using w Cons assms
      by (auto simp: nanmin_def count_valid_finite foldl_fmin_PosInf fold_min_Min
            split: list.splits)
  next
    assume "\<exists>q. v = Fin q"
    then obtain q where "v = Fin q" ..
    then show ?thesis
      using w Cons assms
      by (simp add: nanmin_def count_valid_finite foldl_fmin_Fin fold_min_Min)
  qed
qed

lemma series_stats_spec:
  "no_infinity vs \<Longrightarrow> spec_stats (finite_values vs) (series_stats vs)"
  by (simp add: spec_stats_def series_stats_def nansum_finite nanmean_finite nanmax_finite
        nanmin_finite)

text \<open>
  Where both columns of the metric are in the table and hold finite or absent values,
  the statistics of each entity are the sum, mean, largest and smallest of the values
  present; when none is present the sum is 0 and the other three are absent.
\<close>

lemma statistics_over_present_values:
  assumes "map_of metric_mapping metric = Some (user1_col, user2_col)"
    and "get_column (\<sigma> ! df) user1_col = Inr vs1" "get_column (\<sigma> ! df) user2_col = Inr vs2"
    and "no_infinity vs1" "no_infinity vs2"
  shows "calculate_statistics \<sigma> df metric = (\<sigma>, Inr (series_stats vs1, series_stats vs2)) \<and>
         spec_stats (finite_values vs1) (series_stats vs1) \<and>
         spec_stats (finite_values vs2) (series_stats vs2)"
  using assms by (simp add: calculate_statistics_def series_stats_spec)


lemma statistics_over_present_values_at_sample:
  "map_of metric_mapping lbl_greet = Some (''user1_greet'', ''user2_greet'') \<and>
   get_column ([three_days] ! 0) ''user1_greet'' = Inr [Fin 20, NaN, Fin 30] \<and>
   get_column ([three_days] ! 0) ''user2_greet'' = Inr [NaN, NaN, NaN] \<and>
   no_infinity [Fin 20, NaN, Fin 30] \<and> no_infinity [NaN, NaN, NaN] \<and>
   calculate_statistics [three_days] 0 lbl_greet =
     ([three_days],
      Inr (\<lparr>st_mean = Fin 25, st_max = Fin 30, st_min = Fin 20, st_sum = Fin 50\<rparr>,
           \<lparr>st_mean = NaN, st_max = NaN, st_min = NaN, st_sum = Fin 0\<rparr>))"
proof -
  have m: "map_of metric_mapping lbl_greet = Some (''user1_greet'', ''user2_greet'')"
    by (simp add: metric_mapping_def label_defs)
  have c1: "get_column ([three_days] ! 0) ''user1_greet'' = Inr [Fin 20, NaN, Fin 30]"
    and c2: "get_column ([three_days] ! 0) ''user2_greet'' = Inr [NaN, NaN, NaN]"
    by (simp_all add: get_column_def frame_defs)
  have n: "no_infinity [Fin 20, NaN, Fin 30]" "no_infinity [NaN, NaN, NaN]"
    by (simp_all add: no_infinity_def)
  have s1: "series_stats [Fin 20, NaN, Fin 30] =
              \<lparr>st_mean = Fin 25, st_max = Fin 30, st_min = Fin 20, st_sum = Fin 50\<rparr>"
    using statistics_over_present_values [OF m c1 c2 n]
    by (cases "series_stats [Fin 20, NaN, Fin 30]") (simp add: spec_stats_def)
  have s2: "series_stats [NaN, NaN, NaN] =
              \<lparr>st_mean = NaN, st_max = NaN, st_min = NaN, st_sum = Fin 0\<rparr>"
    using statistics_over_present_values [OF m c1 c2 n]
    by (cases "series_stats [NaN, NaN, NaN]") (simp add: spec_stats_def)
  show ?thesis
    using statistics_over_present_values [OF m c1 c2 n] m c1 c2 n s1 s2 by simp
qed

text \<open>
  C9: for every filtered table and recognised metric the statistics are those of the
  values present, and an entity without any has sum 0 and mean, maximum and minimum
  absent.  On a table built from a 12-column sheet the kill-count metric, which is
  recognised, has no value present for either entity; the code raises \<open>KeyError\<close>,
  as the table has no kill-count columns.
\<close>

theorem statistics_kill_raises:
  "map_of metric_mapping lbl_kill = Some (''user1_kill'', ''user2_kill'') \<and>
   calculate_statistics [three_days] 0 lbl_kill = ([three_days], Inl (KeyError ''user1_kill''))"
  by (simp add: calculate_statistics_def metric_mapping_def label_defs get_column_def
        three_days_def columns12_def)

end
